theory Spec2Isabelle
  imports Main
begin

section \<open>The plugin framework of \<^verbatim>\<open>cli-plugins/plugin/plugin.go\<close>\<close>

text \<open>
  A shallow embedding of the Go file \<^verbatim>\<open>cli-plugins/plugin/plugin.go\<close>: the entry point
  \<^verbatim>\<open>Run\<close>, \<^verbatim>\<open>runPlugin\<close>, the client initializer \<^verbatim>\<open>withPluginClientConn\<close>, the command
  assembly \<^verbatim>\<open>newPluginCommand\<close> and the hidden metadata command
  \<^verbatim>\<open>newMetadataSubcommand\<close>.

  Go strings are byte sequences: \<^typ>\<open>string\<close> (a list of 8-bit characters). Go's
  \<^verbatim>\<open>int\<close> is only compared with zero and passed on, so it is an \<^typ>\<open>int\<close>. Pointers
  to \<^verbatim>\<open>cobra.Command\<close> are indices into a heap of commands, because the file mutates a
  command that is already linked into the tree. A function result \<open>None\<close> is a Go
  run-time panic (a nil dereference or a slice bound out of range).
\<close>

subsection \<open>The JSON encoder used by the metadata command\<close>

text \<open>
  \<^verbatim>\<open>encoding/json\<close> belongs to Go's standard library and \<^verbatim>\<open>unicode/utf8\<close> too. The
  definitions of this subsection follow the library of the Go releases the file was
  written for: \<^verbatim>\<open>utf8.DecodeRuneInString\<close>, the string encoder of \<^verbatim>\<open>encodeState\<close> with
  its \<^verbatim>\<open>escapeHTML\<close> switch, and \<^verbatim>\<open>Encoder.Encode\<close> with \<^verbatim>\<open>SetIndent\<close> for a struct
  whose fields are strings and booleans.
\<close>

definition byte :: "char \<Rightarrow> nat" where
  "byte c = of_char c"

definition RuneError :: nat where
  "RuneError = 0xFFFD"

text \<open>
  The table \<^verbatim>\<open>first\<close> of \<^verbatim>\<open>unicode/utf8\<close> with its accept ranges: for a lead byte, the
  length of the sequence and the bounds of the second byte. \<open>None\<close> is the entry
  \<^verbatim>\<open>xx\<close> (a byte that starts no sequence); ASCII bytes are handled before the table is
  read.
\<close>

definition lead_info :: "nat \<Rightarrow> (nat \<times> nat \<times> nat) option" where
  "lead_info b =
     (if b < 0xC2 then None
      else if b < 0xE0 then Some (2, 0x80, 0xBF)
      else if b = 0xE0 then Some (3, 0xA0, 0xBF)
      else if b < 0xED then Some (3, 0x80, 0xBF)
      else if b = 0xED then Some (3, 0x80, 0x9F)
      else if b < 0xF0 then Some (3, 0x80, 0xBF)
      else if b = 0xF0 then Some (4, 0x90, 0xBF)
      else if b < 0xF4 then Some (4, 0x80, 0xBF)
      else if b = 0xF4 then Some (4, 0x80, 0x8F)
      else None)"

text \<open>\<^verbatim>\<open>utf8.DecodeRuneInString\<close>: the rune at the head of the string and its width in bytes;
  \<open>(RuneError, 1)\<close> for a byte that is not the start of a well-formed sequence.\<close>

definition DecodeRuneInString :: "string \<Rightarrow> nat \<times> nat" where
  "DecodeRuneInString s =
     (case s of
        [] \<Rightarrow> (RuneError, 0)
      | c0 # _ \<Rightarrow>
          let s0 = byte c0 in
          if s0 < 0x80 then (s0, 1)
          else
            (case lead_info s0 of
               None \<Rightarrow> (RuneError, 1)
             | Some (sz, lo, hi) \<Rightarrow>
                 if length s < sz then (RuneError, 1)
                 else
                   let s1 = byte (s ! 1) in
                   if s1 < lo \<or> hi < s1 then (RuneError, 1)
                   else if sz \<le> 2 then ((s0 mod 32) * 64 + s1 mod 64, 2)
                   else
                     let s2 = byte (s ! 2) in
                     if s2 < 0x80 \<or> 0xBF < s2 then (RuneError, 1)
                     else if sz \<le> 3 then
                       ((s0 mod 16) * 4096 + (s1 mod 64) * 64 + s2 mod 64, 3)
                     else
                       let s3 = byte (s ! 3) in
                       if s3 < 0x80 \<or> 0xBF < s3 then (RuneError, 1)
                       else
                         ((s0 mod 8) * 262144 + (s1 mod 64) * 4096
                            + (s2 mod 64) * 64 + s3 mod 64, 4)))"

text \<open>The tables \<^verbatim>\<open>safeSet\<close> and \<^verbatim>\<open>htmlSafeSet\<close> of \<^verbatim>\<open>encoding/json\<close>, for a byte below
  \<^verbatim>\<open>utf8.RuneSelf\<close>.\<close>

definition safeSet :: "nat \<Rightarrow> bool" where
  "safeSet b = (0x20 \<le> b \<and> b < 0x80 \<and> b \<noteq> 0x22 \<and> b \<noteq> 0x5C)"

definition htmlSafeSet :: "nat \<Rightarrow> bool" where
  "htmlSafeSet b = (safeSet b \<and> b \<noteq> 0x26 \<and> b \<noteq> 0x3C \<and> b \<noteq> 0x3E)"

definition hex :: "nat \<Rightarrow> char" where
  "hex n = ''0123456789abcdef'' ! (n mod 16)"

text \<open>The \<^verbatim>\<open>switch\<close> of the string encoder for an ASCII byte that is not passed through.\<close>

definition escape_byte :: "nat \<Rightarrow> string" where
  "escape_byte b =
     (if b = 0x5C \<or> b = 0x22 then [CHR 0x5C, char_of b]
      else if b = 0x0A then [CHR 0x5C, CHR ''n'']
      else if b = 0x0D then [CHR 0x5C, CHR ''r'']
      else if b = 0x09 then [CHR 0x5C, CHR ''t'']
      else [CHR 0x5C, CHR ''u'', CHR ''0'', CHR ''0'', hex (b div 16), hex (b mod 16)])"

text \<open>
  The loop of \<^verbatim>\<open>encodeState.string\<close> between the two quotes. The Go loop keeps two
  indices and copies runs of unchanged bytes; here each step emits the bytes of one
  position. A decoded sequence has a width of at least one, so \<open>drop (width - 1)\<close>
  of the tail is the step \<^verbatim>\<open>i += size\<close>.
\<close>

fun escape_body :: "bool \<Rightarrow> string \<Rightarrow> string" where
  "escape_body escapeHTML [] = []"
| "escape_body escapeHTML (c # cs) =
     (let b = byte c in
      if b < 0x80 then
        (if htmlSafeSet b \<or> (\<not> escapeHTML \<and> safeSet b)
         then c # escape_body escapeHTML cs
         else escape_byte b @ escape_body escapeHTML cs)
      else
        (let (r, width) = DecodeRuneInString (c # cs) in
         if r = RuneError \<and> width = 1 then
           [CHR 0x5C, CHR ''u'', CHR ''f'', CHR ''f'', CHR ''f'', CHR ''d'']
             @ escape_body escapeHTML cs
         else if r = 0x2028 \<or> r = 0x2029 then
           [CHR 0x5C, CHR ''u'', CHR ''2'', CHR ''0'', CHR ''2'', hex (r mod 16)]
             @ escape_body escapeHTML (drop (width - 1) cs)
         else
           take width (c # cs) @ escape_body escapeHTML (drop (width - 1) cs)))"

definition encode_string :: "bool \<Rightarrow> string \<Rightarrow> string" where
  "encode_string escapeHTML s = [CHR 0x22] @ escape_body escapeHTML s @ [CHR 0x22]"

definition encode_bool :: "bool \<Rightarrow> string" where
  "encode_bool b = (if b then ''true'' else ''false'')"

text \<open>The values of the fields that occur: a string or a boolean, each with its
  encoder.\<close>

datatype jvalue = JString string | JBool bool

definition encode_value :: "bool \<Rightarrow> jvalue \<Rightarrow> string" where
  "encode_value escapeHTML v =
     (case v of
        JString s \<Rightarrow> encode_string escapeHTML s
      | JBool b \<Rightarrow> encode_bool b)"

text \<open>
  What \<^verbatim>\<open>Encode\<close> writes for a struct of scalar fields once \<^verbatim>\<open>SetIndent(prefix, indent)\<close>
  has been called with an empty prefix: the members, given as field name and encoded
  value, one per line at depth one, \<^verbatim>\<open>{}\<close> when every field is omitted, and the
  newline that ends every encoded value.
\<close>

fun indent_members :: "string \<Rightarrow> (string \<times> string) list \<Rightarrow> string" where
  "indent_members ind [] = []"
| "indent_members ind [(k, v)] =
     [CHR 0x0A] @ ind @ [CHR 0x22] @ k @ [CHR 0x22] @ '': '' @ v"
| "indent_members ind ((k, v) # kvs) =
     [CHR 0x0A] @ ind @ [CHR 0x22] @ k @ [CHR 0x22] @ '': '' @ v @ '','' @ indent_members ind kvs"

definition encode_object :: "string \<Rightarrow> (string \<times> string) list \<Rightarrow> string" where
  "encode_object ind kvs =
     (if kvs = [] then ''{}'' @ [CHR 0x0A]
      else ''{'' @ indent_members ind kvs @ [CHR 0x0A] @ ''}'' @ [CHR 0x0A])"

subsection \<open>Errors, metadata, commands and the process state\<close>

text \<open>
  An error value returned by a command: \<^verbatim>\<open>cli.StatusError{Status, StatusCode}\<close>, or any
  other error, given by the text of its \<^verbatim>\<open>Error()\<close>.
\<close>

datatype error = StatusError string int | OtherError string

text \<open>
  Modelled from the spec: the struct \<^verbatim>\<open>manager.Metadata\<close> is declared in the package
  \<^verbatim>\<open>cli-plugins/manager\<close>, which is not among the sources. The spec gives its JSON shape
  as \<^verbatim>\<open>{"SchemaVersion"?, "Vendor"?, "Version"?, "ShortDescription", "URL"?,
  "Experimental"?}\<close>: string fields and one boolean, every member but the short
  description left out when it is empty.
\<close>

record Metadata =
  SchemaVersion :: string
  Vendor :: string
  Version :: string
  ShortDescription :: string
  URL :: string
  Experimental :: bool

text \<open>
  The functions stored in a command's fields, as data. \<open>AuthorFunc i r\<close> is a function
  of the plugin author, known by a label and by the error it returns.
  \<open>InitializeHook p\<close> is the closure of lines 22-24, which holds the pointer \<open>p\<close> to the
  plugin command. \<open>MetadataRunE m\<close> is the closure of lines 125-130, which holds the
  variable \<open>m\<close> of \<^verbatim>\<open>newMetadataSubcommand\<close>.
\<close>

datatype func = AuthorFunc nat "error option" | InitializeHook nat | MetadataRunE nat

text \<open>
  The fields of \<^verbatim>\<open>cobra.Command\<close> that decide which functions run: the usage line, the
  short description, the two function fields the file sets, and the links of the
  command tree that \<^verbatim>\<open>AddCommand\<close> maintains. The settings of the help output (lines
  99-106 and 113) are left out.
\<close>

record Command =
  Use :: string
  Short :: string
  Hidden :: bool
  PersistentPreRunE :: "func option"
  RunE :: "func option"
  parent :: "nat option"
  commands :: "nat list"

datatype APIClient = DialStdio string "string list"

datatype event =
    AuthorCalled nat
  | HelperRequested string "string list"
  | ClientCreated
  | HelpShown nat

text \<open>
  The process and what lies outside the file. \<open>os_args\<close> is \<^verbatim>\<open>os.Args\<close>, \<open>reexec_env\<close>
  the value of \<^verbatim>\<open>os.Getenv(manager.ReexecEnvvar)\<close>. The fields ending in \<open>_err\<close> are the
  errors that the collaborators return: \<^verbatim>\<open>command.NewDockerCli\<close>,
  \<^verbatim>\<open>connhelper.GetCommandConnectionHelper\<close>, \<^verbatim>\<open>client.NewClientWithOpts\<close>, the rest of
  \<^verbatim>\<open>DockerCli.Initialize\<close>, \<^verbatim>\<open>HandleGlobalFlags\<close> and the write to \<^verbatim>\<open>os.Stdout\<close>.
  \<open>cobra_find\<close> is the command that cobra's traversal of the arguments selects below a
  root, or the error of the traversal. \<open>stderr\<close> is \<^verbatim>\<open>os.Stderr\<close>, which is also the
  error stream of the \<^verbatim>\<open>DockerCli\<close> that \<^verbatim>\<open>Run\<close> creates. \<open>cmds\<close> is the heap of commands,
  \<open>metas\<close> the heap of \<^verbatim>\<open>Metadata\<close> variables, \<open>client\<close> the API client of the
  \<^verbatim>\<open>DockerCli\<close>, and \<open>events\<close> the calls made to code outside the file, in order.
\<close>

record world =
  os_args :: "string list"
  reexec_env :: string
  new_cli_err :: "string option"
  helper_err :: "error option"
  client_err :: "error option"
  initialize_err :: "error option"
  global_flags_err :: "error option"
  stdout_err :: "error option"
  cobra_find :: "Command list \<Rightarrow> nat \<Rightarrow> error + nat"
  stdout :: string
  stderr :: string
  cmds :: "Command list"
  metas :: "Metadata list"
  client :: "APIClient option"
  events :: "event list"

datatype outcome = Returned | Exit int

text \<open>The constants of the package \<^verbatim>\<open>manager\<close> that the file reads; no result below
  depends on their values.\<close>

definition NamePrefix :: string where
  "NamePrefix = ''docker-''"

definition MetadataSubcommandName :: string where
  "MetadataSubcommandName = ''docker-cli-plugin-metadata''"

definition deref :: "'a list \<Rightarrow> nat \<Rightarrow> 'a option" where
  "deref heap a = (if a < length heap then Some (heap ! a) else None)"

text \<open>\<^verbatim>\<open>(*cobra.Command).Name\<close>: the usage line up to its first space.\<close>

definition Name :: "Command \<Rightarrow> string" where
  "Name c = takeWhile (\<lambda>x. x \<noteq> CHR '' '') (Use c)"

subsection \<open>The client initializer (lines 60-90)\<close>

text \<open>The loop of lines 75-80 over \<^verbatim>\<open>os.Args[1:]\<close>: \<open>flags\<close> is the slice built so far.\<close>

fun collect_flags :: "string \<Rightarrow> string list \<Rightarrow> string list \<Rightarrow> string list" where
  "collect_flags name [] flags = flags"
| "collect_flags name (a # as) flags =
     (if a = name then flags else collect_flags name as (flags @ [a]))"

text \<open>Lines 66-81: the arguments of the helper command. \<^verbatim>\<open>os.Args[1:]\<close> panics on an
  empty \<^verbatim>\<open>os.Args\<close>.\<close>

definition helper_flags :: "string \<Rightarrow> string list \<Rightarrow> string list option" where
  "helper_flags name args =
     (case args of
        [] \<Rightarrow> None
      | _ # rest \<Rightarrow> Some (collect_flags name rest [] @ [''system'', ''dial-stdio'']))"

text \<open>The function that \<^verbatim>\<open>withPluginClientConn name\<close> hands to
  \<^verbatim>\<open>command.WithInitializeClient\<close> (lines 61-89).\<close>

definition withPluginClientConn ::
  "string \<Rightarrow> world \<Rightarrow> ((error + APIClient) \<times> world) option" where
  "withPluginClientConn name w =
     (let cmd = (if reexec_env w \<noteq> [] then reexec_env w else ''docker'') in
      case helper_flags name (os_args w) of
        None \<Rightarrow> None
      | Some flags \<Rightarrow>
          let w1 = w\<lparr>events := events w @ [HelperRequested cmd flags]\<rparr> in
          (case helper_err w1 of
             Some e \<Rightarrow> Some (Inl e, w1)
           | None \<Rightarrow>
               let w2 = w1\<lparr>events := events w1 @ [ClientCreated]\<rparr> in
               (case client_err w2 of
                  Some e \<Rightarrow> Some (Inl e, w2)
                | None \<Rightarrow> Some (Inr (DialStdio cmd flags), w2))))"

text \<open>\<^verbatim>\<open>tcmd.Initialize(withPluginClientConn(name))\<close>: the option stores what the function
  returns as the client of the \<^verbatim>\<open>DockerCli\<close> and returns its error; the rest of the
  initialisation follows only when there is none.\<close>

definition Initialize :: "string \<Rightarrow> world \<Rightarrow> (error option \<times> world) option" where
  "Initialize name w =
     (case withPluginClientConn name w of
        None \<Rightarrow> None
      | Some (Inl e, w1) \<Rightarrow> Some (Some e, w1\<lparr>client := None\<rparr>)
      | Some (Inr c, w1) \<Rightarrow> Some (initialize_err w1, w1\<lparr>client := Some c\<rparr>))"

subsection \<open>The metadata command (lines 118-133)\<close>

text \<open>The fields that the encoder writes for a \<^verbatim>\<open>Metadata\<close>, in the order of their
  declaration, and the members of the object: field name and encoded value.\<close>

definition metadata_fields :: "Metadata \<Rightarrow> (string \<times> jvalue) list" where
  "metadata_fields m =
     (if SchemaVersion m = [] then [] else [(''SchemaVersion'', JString (SchemaVersion m))])
     @ (if Vendor m = [] then [] else [(''Vendor'', JString (Vendor m))])
     @ (if Version m = [] then [] else [(''Version'', JString (Version m))])
     @ [(''ShortDescription'', JString (ShortDescription m))]
     @ (if URL m = [] then [] else [(''URL'', JString (URL m))])
     @ (if Experimental m then [(''Experimental'', JBool True)] else [])"

definition metadata_members :: "bool \<Rightarrow> Metadata \<Rightarrow> (string \<times> string) list" where
  "metadata_members escapeHTML m =
     map (\<lambda>(k, v). (k, encode_value escapeHTML v)) (metadata_fields m)"

text \<open>Lines 126-129: an encoder on \<^verbatim>\<open>os.Stdout\<close> with the two settings, and one \<^verbatim>\<open>Encode\<close>.\<close>

definition Encode :: "bool \<Rightarrow> string \<Rightarrow> Metadata \<Rightarrow> world \<Rightarrow> error option \<times> world" where
  "Encode escapeHTML ind m w =
     (case stdout_err w of
        Some e \<Rightarrow> (Some e, w)
      | None \<Rightarrow>
          (None, w\<lparr>stdout := stdout w @ encode_object ind (metadata_members escapeHTML m)\<rparr>))"

definition metadata_RunE :: "nat \<Rightarrow> world \<Rightarrow> (error option \<times> world) option" where
  "metadata_RunE m w =
     (case deref (metas w) m of
        None \<Rightarrow> None
      | Some meta \<Rightarrow> Some (Encode False ''     '' meta w))"

text \<open>
  \<^verbatim>\<open>newMetadataSubcommand\<close>. The parameter \<^verbatim>\<open>meta\<close> is passed by value: it is a new
  variable, which the closure captures, so it is a new cell of \<open>metas\<close>. Line 120 assigns
  to that variable; \<^verbatim>\<open>plugin.Short\<close> dereferences the plugin.
\<close>

definition newMetadataSubcommand :: "nat \<Rightarrow> Metadata \<Rightarrow> world \<Rightarrow> (nat \<times> world) option" where
  "newMetadataSubcommand plugin meta w =
     (let m = length (metas w);
          w1 = w\<lparr>metas := metas w @ [meta]\<rparr>;
          mk = (\<lambda>w2.
            (length (cmds w2),
             w2\<lparr>cmds := cmds w2 @
               [\<lparr>Use = MetadataSubcommandName, Short = [], Hidden = True,
                 PersistentPreRunE = None, RunE = Some (MetadataRunE m),
                 parent = None, commands = []\<rparr>]\<rparr>))
      in
      if ShortDescription (metas w1 ! m) = [] then
        (case deref (cmds w1) plugin of
           None \<Rightarrow> None
         | Some p \<Rightarrow>
             Some (mk (w1\<lparr>metas := (metas w1)[m := (metas w1 ! m)\<lparr>ShortDescription := Short p\<rparr>]\<rparr>)))
      else Some (mk w1))"

subsection \<open>The command tree (lines 92-116)\<close>

text \<open>\<^verbatim>\<open>(*cobra.Command).AddCommand\<close> for one child: the child's parent is set and the child
  is appended to the parent's commands.\<close>

definition AddCommand :: "nat \<Rightarrow> nat \<Rightarrow> Command list \<Rightarrow> Command list" where
  "AddCommand c x heap =
     (let heap1 = heap[x := (heap ! x)\<lparr>parent := Some c\<rparr>]
      in heap1[c := (heap1 ! c)\<lparr>commands := commands (heap1 ! c) @ [x]\<rparr>])"

text \<open>\<^verbatim>\<open>newPluginCommand\<close>: the result is the root command that the
  \<^verbatim>\<open>TopLevelCommand\<close> wraps. \<^verbatim>\<open>plugin.Name()\<close> dereferences the plugin first.\<close>

definition newPluginCommand :: "nat \<Rightarrow> Metadata \<Rightarrow> world \<Rightarrow> (nat \<times> world) option" where
  "newPluginCommand plugin meta w =
     (case deref (cmds w) plugin of
        None \<Rightarrow> None
      | Some p \<Rightarrow>
          let name = Name p;
              fullname = NamePrefix @ name;
              cmd = length (cmds w);
              w1 = w\<lparr>cmds := cmds w @
                     [\<lparr>Use = ''docker [OPTIONS] '' @ name @ '' [ARG...]'',
                       Short = fullname @ '' is a Docker CLI plugin'', Hidden = False,
                       PersistentPreRunE = None, RunE = None,
                       parent = None, commands = []\<rparr>]\<rparr>
          in
          (case newMetadataSubcommand plugin meta w1 of
             None \<Rightarrow> None
           | Some (mc, w2) \<Rightarrow>
               Some (cmd, w2\<lparr>cmds := AddCommand cmd mc (AddCommand cmd plugin (cmds w2))\<rparr>)))"

subsection \<open>Running the tree (lines 16-31)\<close>

text \<open>Calling a stored function. A function of the author is known only by the error
  it returns; the call is recorded.\<close>

definition call_func :: "func \<Rightarrow> world \<Rightarrow> (error option \<times> world) option" where
  "call_func f w =
     (case f of
        AuthorFunc i r \<Rightarrow> Some (r, w\<lparr>events := events w @ [AuthorCalled i]\<rparr>)
      | InitializeHook p \<Rightarrow>
          (case deref (cmds w) p of
             None \<Rightarrow> None
           | Some c \<Rightarrow> Initialize (Name c) w)
      | MetadataRunE m \<Rightarrow> metadata_RunE m w)"

text \<open>
  Modelled from the spec: cobra's \<^verbatim>\<open>(*Command).execute\<close> is library code and not among
  the sources. The spec (4.3 and 9) has the initializer installed as a hook of the
  framework that runs when the plugin's command is executed and not for the metadata
  command; \<open>find_hook\<close> and \<open>execute\<close> follow cobra's rule for that hook.

  cobra's search for the persistent pre-run function of a command: the loop
  \<^verbatim>\<open>for p := c; p != nil; p = p.Parent()\<close> stops at the first command whose
  \<^verbatim>\<open>PersistentPreRunE\<close> is set. The first argument bounds the number of steps; a chain of
  parents without a cycle is no longer than the heap.
\<close>

fun find_hook :: "nat \<Rightarrow> Command list \<Rightarrow> nat option \<Rightarrow> func option option" where
  "find_hook 0 heap p = None"
| "find_hook (Suc n) heap None = Some None"
| "find_hook (Suc n) heap (Some a) =
     (case deref heap a of
        None \<Rightarrow> None
      | Some c \<Rightarrow>
          (case PersistentPreRunE c of
             Some h \<Rightarrow> Some (Some h)
           | None \<Rightarrow> find_hook n heap (parent c)))"

text \<open>
  cobra's \<^verbatim>\<open>execute\<close> of the selected command: a command without a run function asks
  for the help text, which \<^verbatim>\<open>ExecuteC\<close> prints before it returns no error; otherwise the
  persistent pre-run function found above runs, and the command's \<^verbatim>\<open>RunE\<close> after it
  unless it failed.
\<close>

definition execute :: "nat \<Rightarrow> world \<Rightarrow> (error option \<times> world) option" where
  "execute c w =
     (case deref (cmds w) c of
        None \<Rightarrow> None
      | Some cmd \<Rightarrow>
          (case RunE cmd of
             None \<Rightarrow> Some (None, w\<lparr>events := events w @ [HelpShown c]\<rparr>)
           | Some run \<Rightarrow>
               (case find_hook (Suc (length (cmds w))) (cmds w) (Some c) of
                  None \<Rightarrow> None
                | Some None \<Rightarrow> call_func run w
                | Some (Some h) \<Rightarrow>
                    (case call_func h w of
                       None \<Rightarrow> None
                     | Some (Some e, w1) \<Rightarrow> Some (Some e, w1)
                     | Some (None, w1) \<Rightarrow> call_func run w1))))"

definition Execute :: "nat \<Rightarrow> world \<Rightarrow> (error option \<times> world) option" where
  "Execute root w =
     (case cobra_find w (cmds w) root of
        Inl e \<Rightarrow> Some (Some e, w)
      | Inr c \<Rightarrow> execute c w)"

definition runPlugin :: "nat \<Rightarrow> Metadata \<Rightarrow> world \<Rightarrow> (error option \<times> world) option" where
  "runPlugin plugin meta w =
     (case newPluginCommand plugin meta w of
        None \<Rightarrow> None
      | Some (tcmd, w1) \<Rightarrow>
          let w2 = w1\<lparr>cmds := (cmds w1)
                     [plugin := (cmds w1 ! plugin)\<lparr>PersistentPreRunE := Some (InitializeHook plugin)\<rparr>]\<rparr>
          in
          (case global_flags_err w2 of
             Some err \<Rightarrow> Some (Some err, w2)
           | None \<Rightarrow> Execute tcmd w2))"

subsection \<open>The entry point (lines 33-58)\<close>

text \<open>\<^verbatim>\<open>Run\<close>: \<open>Exit n\<close> is \<^verbatim>\<open>os.Exit(n)\<close>, \<open>Returned\<close> the return to \<^verbatim>\<open>main\<close>.
  \<^verbatim>\<open>fmt.Fprintln\<close> writes its argument and a newline.\<close>

definition Run ::
  "(world \<Rightarrow> nat \<times> world) \<Rightarrow> Metadata \<Rightarrow> world \<Rightarrow> (outcome \<times> world) option" where
  "Run makeCmd meta w =
     (case new_cli_err w of
        Some t \<Rightarrow> Some (Exit 1, w\<lparr>stderr := stderr w @ t @ [CHR 0x0A]\<rparr>)
      | None \<Rightarrow>
          let (plugin, w1) = makeCmd w in
          (case runPlugin plugin meta w1 of
             None \<Rightarrow> None
           | Some (None, w2) \<Rightarrow> Some (Returned, w2)
           | Some (Some (StatusError status code), w2) \<Rightarrow>
               let w3 = (if status \<noteq> [] then w2\<lparr>stderr := stderr w2 @ status @ [CHR 0x0A]\<rparr>
                         else w2)
               in if code = 0 then Some (Exit 1, w3) else Some (Exit code, w3)
           | Some (Some (OtherError t), w2) \<Rightarrow>
               Some (Exit 1, w2\<lparr>stderr := stderr w2 @ t @ [CHR 0x0A]\<rparr>)))"

subsection \<open>A reader for the documents of the metadata command\<close>

text \<open>
  Modelled from the spec: the consumer of the metadata is the parent CLI, which is not
  among the sources; the spec speaks of the output being read back by JSON parsing.
  The reader below accepts JSON objects whose members are strings and booleans, with
  the escapes of JSON strings, and fills a \<^verbatim>\<open>Metadata\<close> from the members as
  \<^verbatim>\<open>json.Unmarshal\<close> does: a member that is absent leaves the zero value. A pair of
  surrogate escapes is not combined; the encoder above writes none.
\<close>

definition is_space :: "char \<Rightarrow> bool" where
  "is_space c = (c = CHR '' '' \<or> c = CHR 0x09 \<or> c = CHR 0x0A \<or> c = CHR 0x0D)"

definition hexval :: "char \<Rightarrow> nat option" where
  "hexval c =
     (let b = byte c in
      if 0x30 \<le> b \<and> b \<le> 0x39 then Some (b - 0x30)
      else if 0x61 \<le> b \<and> b \<le> 0x66 then Some (b - 0x61 + 10)
      else if 0x41 \<le> b \<and> b \<le> 0x46 then Some (b - 0x41 + 10)
      else None)"

definition hex4 :: "string \<Rightarrow> nat option" where
  "hex4 s =
     (case map hexval s of
        [Some a, Some b, Some c, Some d] \<Rightarrow> Some (a * 4096 + b * 256 + c * 16 + d)
      | _ \<Rightarrow> None)"

text \<open>The UTF-8 encoding of a code point (\<^verbatim>\<open>utf8.EncodeRune\<close>); a surrogate or a value
  past the last code point is written as U+FFFD.\<close>

definition encode_rune :: "nat \<Rightarrow> string" where
  "encode_rune r =
     (if r < 0x80 then [char_of r]
      else if r < 0x800 then [char_of (0xC0 + r div 64), char_of (0x80 + r mod 64)]
      else if (0xD800 \<le> r \<and> r \<le> 0xDFFF) \<or> 0x10FFFF < r then [CHR 0xEF, CHR 0xBF, CHR 0xBD]
      else if r < 0x10000 then
        [char_of (0xE0 + r div 4096), char_of (0x80 + (r div 64) mod 64),
         char_of (0x80 + r mod 64)]
      else
        [char_of (0xF0 + r div 262144), char_of (0x80 + (r div 4096) mod 64),
         char_of (0x80 + (r div 64) mod 64), char_of (0x80 + r mod 64)])"

definition unescape :: "char \<Rightarrow> char option" where
  "unescape e =
     (if e = CHR 0x22 \<or> e = CHR 0x5C \<or> e = CHR ''/'' then Some e
      else if e = CHR ''b'' then Some (CHR 0x08)
      else if e = CHR ''f'' then Some (CHR 0x0C)
      else if e = CHR ''n'' then Some (CHR 0x0A)
      else if e = CHR ''r'' then Some (CHR 0x0D)
      else if e = CHR ''t'' then Some (CHR 0x09)
      else None)"

text \<open>The text of a string after its opening quote: the decoded bytes and what follows
  the closing quote.\<close>

fun unquote_body :: "string \<Rightarrow> (string \<times> string) option" where
  "unquote_body [] = None"
| "unquote_body (c # cs) =
     (if c = CHR 0x22 then Some ([], cs)
      else if c = CHR 0x5C then
        (case cs of
           [] \<Rightarrow> None
         | e # rest \<Rightarrow>
             if e = CHR ''u'' then
               (case hex4 (take 4 rest) of
                  None \<Rightarrow> None
                | Some r \<Rightarrow>
                    (case unquote_body (drop 4 rest) of
                       None \<Rightarrow> None
                     | Some (s, t) \<Rightarrow> Some (encode_rune r @ s, t)))
             else
               (case unescape e of
                  None \<Rightarrow> None
                | Some b \<Rightarrow>
                    (case unquote_body rest of
                       None \<Rightarrow> None
                     | Some (s, t) \<Rightarrow> Some (b # s, t))))
      else if byte c < 0x20 then None
      else
        (case unquote_body cs of
           None \<Rightarrow> None
         | Some (s, t) \<Rightarrow> Some (c # s, t)))"

definition parse_string :: "string \<Rightarrow> (string \<times> string) option" where
  "parse_string s =
     (case s of
        [] \<Rightarrow> None
      | c # cs \<Rightarrow> if c = CHR 0x22 then unquote_body cs else None)"

definition parse_value :: "string \<Rightarrow> (jvalue \<times> string) option" where
  "parse_value s =
     (if take 4 s = ''true'' then Some (JBool True, drop 4 s)
      else if take 5 s = ''false'' then Some (JBool False, drop 5 s)
      else
        (case parse_string s of
           None \<Rightarrow> None
         | Some (v, t) \<Rightarrow> Some (JString v, t)))"

text \<open>The members of an object after its opening brace, up to the closing brace. The
  first argument bounds the number of members.\<close>

fun parse_members :: "nat \<Rightarrow> string \<Rightarrow> ((string \<times> jvalue) list \<times> string) option" where
  "parse_members 0 s = None"
| "parse_members (Suc n) s =
     (case parse_string (dropWhile is_space s) of
        None \<Rightarrow> None
      | Some (k, s1) \<Rightarrow>
          (case dropWhile is_space s1 of
             [] \<Rightarrow> None
           | c # s2 \<Rightarrow>
               if c \<noteq> CHR '':'' then None
               else
                 (case parse_value (dropWhile is_space s2) of
                    None \<Rightarrow> None
                  | Some (v, s3) \<Rightarrow>
                      (case dropWhile is_space s3 of
                         [] \<Rightarrow> None
                       | d # s4 \<Rightarrow>
                           if d = CHR ''}'' then Some ([(k, v)], s4)
                           else if d = CHR '','' then
                             (case parse_members n s4 of
                                None \<Rightarrow> None
                              | Some (kvs, t) \<Rightarrow> Some ((k, v) # kvs, t))
                           else None))))"

definition parse_object :: "string \<Rightarrow> ((string \<times> jvalue) list \<times> string) option" where
  "parse_object s =
     (case dropWhile is_space s of
        [] \<Rightarrow> None
      | c # s1 \<Rightarrow>
          if c \<noteq> CHR ''{'' then None
          else
            (case dropWhile is_space s1 of
               [] \<Rightarrow> None
             | d # s2 \<Rightarrow> if d = CHR ''}'' then Some ([], s2) else parse_members (length s) s1))"

text \<open>A text is one document when it is one object followed by white space only.\<close>

definition parse_document :: "string \<Rightarrow> (string \<times> jvalue) list option" where
  "parse_document s =
     (case parse_object s of
        None \<Rightarrow> None
      | Some (kvs, t) \<Rightarrow> if list_all is_space t then Some kvs else None)"

definition set_field :: "string \<times> jvalue \<Rightarrow> Metadata \<Rightarrow> Metadata option" where
  "set_field kv m =
     (case kv of
        (k, JString s) \<Rightarrow>
          if k = ''SchemaVersion'' then Some (m\<lparr>SchemaVersion := s\<rparr>)
          else if k = ''Vendor'' then Some (m\<lparr>Vendor := s\<rparr>)
          else if k = ''Version'' then Some (m\<lparr>Version := s\<rparr>)
          else if k = ''ShortDescription'' then Some (m\<lparr>ShortDescription := s\<rparr>)
          else if k = ''URL'' then Some (m\<lparr>URL := s\<rparr>)
          else if k = ''Experimental'' then None
          else Some m
      | (k, JBool b) \<Rightarrow>
          if k = ''Experimental'' then Some (m\<lparr>Experimental := b\<rparr>)
          else if k \<in> {''SchemaVersion'', ''Vendor'', ''Version'', ''ShortDescription'', ''URL''}
          then None
          else Some m)"

fun set_fields :: "(string \<times> jvalue) list \<Rightarrow> Metadata \<Rightarrow> Metadata option" where
  "set_fields [] m = Some m"
| "set_fields (kv # kvs) m =
     (case set_field kv m of
        None \<Rightarrow> None
      | Some m1 \<Rightarrow> set_fields kvs m1)"

definition Unmarshal :: "string \<Rightarrow> Metadata option" where
  "Unmarshal s =
     (case parse_document s of
        None \<Rightarrow> None
      | Some kvs \<Rightarrow>
          set_fields kvs
            \<lparr>SchemaVersion = [], Vendor = [], Version = [], ShortDescription = [],
             URL = [], Experimental = False\<rparr>)"

text \<open>What a reader gets back for a string: every byte that does not start a
  well-formed UTF-8 sequence has become U+FFFD, the rest is unchanged.\<close>

fun replace_invalid :: "string \<Rightarrow> string" where
  "replace_invalid [] = []"
| "replace_invalid (c # cs) =
     (if byte c < 0x80 then c # replace_invalid cs
      else
        (let (r, width) = DecodeRuneInString (c # cs) in
         if r = RuneError \<and> width = 1 then [CHR 0xEF, CHR 0xBF, CHR 0xBD] @ replace_invalid cs
         else take width (c # cs) @ replace_invalid (drop (width - 1) cs)))"

definition reread_value :: "jvalue \<Rightarrow> jvalue" where
  "reread_value v = (case v of JString s \<Rightarrow> JString (replace_invalid s) | JBool b \<Rightarrow> JBool b)"

definition reread :: "Metadata \<Rightarrow> Metadata" where
  "reread m =
     \<lparr>SchemaVersion = replace_invalid (SchemaVersion m),
      Vendor = replace_invalid (Vendor m),
      Version = replace_invalid (Version m),
      ShortDescription = replace_invalid (ShortDescription m),
      URL = replace_invalid (URL m),
      Experimental = Experimental m\<rparr>"

subsection \<open>An example process\<close>

text \<open>
  A traversal for the examples: the first child of the root whose name is the given
  token, as cobra selects the subcommand named by the first argument that is not a
  flag.
\<close>

definition find_by_name :: "string \<Rightarrow> Command list \<Rightarrow> nat \<Rightarrow> error + nat" where
  "find_by_name tok heap root =
     (case deref heap root of
        None \<Rightarrow> Inl (OtherError ''unknown command'')
      | Some r \<Rightarrow>
          (case filter (\<lambda>a. case deref heap a of None \<Rightarrow> False | Some c \<Rightarrow> Name c = tok)
                  (commands r) of
             [] \<Rightarrow> Inl (OtherError ''unknown command'')
           | a # _ \<Rightarrow> Inr a))"

text \<open>A plugin command with a persistent pre-run function of its own and a run
  function that returns the given error.\<close>

definition example_plugin :: "error option \<Rightarrow> Command" where
  "example_plugin r =
     \<lparr>Use = ''myplugin [ARG...]'', Short = ''An example plugin'', Hidden = False,
      PersistentPreRunE = Some (AuthorFunc 1 None),
      RunE = Some (AuthorFunc 2 r),
      parent = None, commands = []\<rparr>"

definition example_meta :: Metadata where
  "example_meta =
     \<lparr>SchemaVersion = ''0.1.0'', Vendor = ''A & B <ab@example.org>'', Version = [],
      ShortDescription = [], URL = [], Experimental = False\<rparr>"

text \<open>The process \<^verbatim>\<open>docker-myplugin --config /tmp/c myplugin ls -a\<close> in which cobra selects
  the subcommand \<open>tok\<close>.\<close>

definition example_world :: "string \<Rightarrow> error option \<Rightarrow> world" where
  "example_world tok r =
     \<lparr>os_args = [''docker-myplugin'', ''--config'', ''/tmp/c'', ''myplugin'', ''ls'', ''-a''],
      reexec_env = [], new_cli_err = None, helper_err = None, client_err = None,
      initialize_err = None, global_flags_err = None, stdout_err = None,
      cobra_find = find_by_name tok,
      stdout = [], stderr = [], cmds = [example_plugin r], metas = [],
      client = None, events = []\<rparr>"

section \<open>Properties\<close>

subsection \<open>The arguments of the helper command\<close>

lemma collect_flags_takeWhile:
  "collect_flags name args flags = flags @ takeWhile (\<lambda>a. a \<noteq> name) args"
  by (induction args arbitrary: flags) auto

lemma takeWhile_until_first:
  "name \<notin> set pre \<Longrightarrow> takeWhile (\<lambda>a. a \<noteq> name) (pre @ name # post) = pre"
  by (induction pre) auto

lemma takeWhile_absent:
  "name \<notin> set argv \<Longrightarrow> takeWhile (\<lambda>a. a \<noteq> name) argv = argv"
  by (induction argv) auto

text \<open>
  C1. Let \<open>prog # argv\<close> be \<^verbatim>\<open>os.Args\<close>, so that \<open>argv\<close> is the argument vector without
  the program name. If the plugin's name is one of the tokens of \<open>argv\<close>, then \<open>argv\<close>
  splits at the first occurrence of the name into \<open>pre @ name # post\<close> with no
  occurrence in \<open>pre\<close>, and the arguments computed for the helper are \<open>pre\<close> followed by
  \<^verbatim>\<open>system\<close> and \<^verbatim>\<open>dial-stdio\<close>. Nothing is assumed about the tokens of \<open>pre\<close> or about
  what the first occurrence is: it may be the value of a flag that stands before it.
\<close>

theorem partitioner_prefix_before_first_name:
  assumes "name \<in> set argv"
  shows "\<exists>pre post. argv = pre @ name # post \<and> name \<notin> set pre \<and>
           helper_flags name (prog # argv) = Some (pre @ [''system'', ''dial-stdio''])"
proof -
  from assms obtain pre post where split: "argv = pre @ name # post" "name \<notin> set pre"
    by (meson split_list_first)
  have "takeWhile (\<lambda>a. a \<noteq> name) argv = pre"
    using split by (simp add: takeWhile_until_first)
  then have "helper_flags name (prog # argv) = Some (pre @ [''system'', ''dial-stdio''])"
    by (simp add: helper_flags_def collect_flags_takeWhile)
  with split show ?thesis by blast
qed

text \<open>The example of the spec: the arguments
  \<^verbatim>\<open>--config /tmp/c myplugin ls -a\<close> and the plugin name \<^verbatim>\<open>myplugin\<close>.\<close>

theorem partitioner_example:
  "''myplugin'' \<in> set [''--config'', ''/tmp/c'', ''myplugin'', ''ls'', ''-a''] \<and>
   helper_flags ''myplugin''
      [''docker-myplugin'', ''--config'', ''/tmp/c'', ''myplugin'', ''ls'', ''-a'']
     = Some [''--config'', ''/tmp/c'', ''system'', ''dial-stdio'']"
proof -
  have mem: "''myplugin'' \<in> set [''--config'', ''/tmp/c'', ''myplugin'', ''ls'', ''-a'']"
    by simp
  from partitioner_prefix_before_first_name [OF mem, of "''docker-myplugin''"]
  obtain pre post where
    s: "[''--config'', ''/tmp/c'', ''myplugin'', ''ls'', ''-a''] = pre @ ''myplugin'' # post"
    and n: "''myplugin'' \<notin> set pre"
    and r: "helper_flags ''myplugin''
              [''docker-myplugin'', ''--config'', ''/tmp/c'', ''myplugin'', ''ls'', ''-a'']
             = Some (pre @ [''system'', ''dial-stdio''])"
    by blast
  have "takeWhile (\<lambda>a. a \<noteq> ''myplugin'') (pre @ ''myplugin'' # post) = pre"
    using n by (rule takeWhile_until_first)
  then have "pre = [''--config'', ''/tmp/c'']"
    unfolding s [symmetric] by simp
  with r mem show ?thesis by simp
qed

text \<open>
  C3. If the plugin's name is not among the tokens of \<open>argv\<close>, the computation does not
  panic and the arguments for the helper are all of \<open>argv\<close>, in order, followed by
  \<^verbatim>\<open>system\<close> and \<^verbatim>\<open>dial-stdio\<close>.
\<close>

theorem partitioner_name_absent:
  assumes "name \<notin> set argv"
  shows "helper_flags name (prog # argv) = Some (argv @ [''system'', ''dial-stdio''])"
proof -
  have "takeWhile (\<lambda>a. a \<noteq> name) argv = argv"
    using assms by (rule takeWhile_absent)
  then show ?thesis
    by (simp add: helper_flags_def collect_flags_takeWhile)
qed

theorem partitioner_name_absent_witness:
  "''myplugin'' \<notin> set [''--debug'', ''ls''] \<and>
   helper_flags ''myplugin'' [''docker-myplugin'', ''--debug'', ''ls'']
     = Some [''--debug'', ''ls'', ''system'', ''dial-stdio'']"
  using partitioner_name_absent [of "''myplugin''" "[''--debug'', ''ls'']" "''docker-myplugin''"]
  by simp

subsection \<open>The assembled tree and the effects of a run\<close>

lemma length_AddCommand [simp]: "length (AddCommand c x heap) = length heap"
  by (simp add: AddCommand_def Let_def)

lemma newMetadataSubcommand_eq:
  assumes "plugin < length (cmds w)"
  shows "newMetadataSubcommand plugin meta w =
           Some (length (cmds w),
                 w\<lparr>metas := metas w @
                      [if ShortDescription meta = []
                       then meta\<lparr>ShortDescription := Short (cmds w ! plugin)\<rparr> else meta],
                   cmds := cmds w @
                      [\<lparr>Use = MetadataSubcommandName, Short = [], Hidden = True,
                        PersistentPreRunE = None,
                        RunE = Some (MetadataRunE (length (metas w))),
                        parent = None, commands = []\<rparr>]\<rparr>)"
  using assms by (simp add: newMetadataSubcommand_def deref_def Let_def)

lemma newMetadataSubcommand_panic:
  assumes "\<not> plugin < length (cmds w)" "ShortDescription meta = []"
  shows "newMetadataSubcommand plugin meta w = None"
  using assms by (simp add: newMetadataSubcommand_def deref_def Let_def)

lemma newPluginCommand_eq:
  assumes "plugin < length (cmds w)"
  shows "newPluginCommand plugin meta w =
           Some (length (cmds w),
                 w\<lparr>metas := metas w @
                      [if ShortDescription meta = []
                       then meta\<lparr>ShortDescription := Short (cmds w ! plugin)\<rparr> else meta],
                   cmds := AddCommand (length (cmds w)) (Suc (length (cmds w)))
                      (AddCommand (length (cmds w)) plugin
                         (cmds w @
                            [\<lparr>Use = ''docker [OPTIONS] '' @ Name (cmds w ! plugin) @ '' [ARG...]'',
                              Short = NamePrefix @ Name (cmds w ! plugin) @ '' is a Docker CLI plugin'',
                              Hidden = False, PersistentPreRunE = None, RunE = None,
                              parent = None, commands = []\<rparr>,
                             \<lparr>Use = MetadataSubcommandName, Short = [], Hidden = True,
                              PersistentPreRunE = None,
                              RunE = Some (MetadataRunE (length (metas w))),
                              parent = None, commands = []\<rparr>]))\<rparr>)"
  using assms
  by (simp add: newPluginCommand_def deref_def Let_def newMetadataSubcommand_eq nth_append)

lemma newPluginCommand_panic:
  "\<not> plugin < length (cmds w) \<Longrightarrow> newPluginCommand plugin meta w = None"
  by (simp add: newPluginCommand_def deref_def)

lemma nth_AddCommand:
  assumes "c < length heap" "x < length heap" "c \<noteq> x" "a < length heap"
  shows "AddCommand c x heap ! a =
           (if a = c then (heap ! c)\<lparr>commands := commands (heap ! c) @ [x]\<rparr>
            else if a = x then (heap ! x)\<lparr>parent := Some c\<rparr>
            else heap ! a)"
  using assms by (simp add: AddCommand_def Let_def nth_list_update)

lemma withPluginClientConn_frame:
  "withPluginClientConn name w = Some (r, w1) \<Longrightarrow> w1 = w\<lparr>events := events w1\<rparr>"
  by (auto simp: withPluginClientConn_def Let_def split: option.splits)

lemma Initialize_frame:
  assumes "Initialize name w = Some (r, w1)"
  shows "w1 = w\<lparr>events := events w1, client := client w1\<rparr>"
  using assms
  by (auto simp: Initialize_def split: option.splits sum.splits prod.splits
           dest!: withPluginClientConn_frame)

lemma call_func_heaps:
  assumes "call_func f w = Some (r, w1)"
  shows "cmds w1 = cmds w \<and> metas w1 = metas w \<and> stderr w1 = stderr w"
proof (cases f)
  case (AuthorFunc i e)
  with assms show ?thesis by (auto simp: call_func_def)
next
  case (InitializeHook p)
  with assms obtain c where "Initialize (Name c) w = Some (r, w1)"
    by (auto simp: call_func_def split: option.splits)
  then have "w1 = w\<lparr>events := events w1, client := client w1\<rparr>"
    by (rule Initialize_frame)
  then have "cmds w1 = cmds (w\<lparr>events := events w1, client := client w1\<rparr>)"
    "metas w1 = metas (w\<lparr>events := events w1, client := client w1\<rparr>)"
    "stderr w1 = stderr (w\<lparr>events := events w1, client := client w1\<rparr>)"
    by simp_all
  then show ?thesis by simp
next
  case (MetadataRunE m)
  with assms show ?thesis
    by (auto simp: call_func_def metadata_RunE_def Encode_def split: option.splits)
qed

lemma execute_heaps:
  assumes "execute c w = Some (r, w1)"
  shows "cmds w1 = cmds w \<and> metas w1 = metas w \<and> stderr w1 = stderr w"
  using assms
  by (auto simp: execute_def split: option.splits prod.splits dest!: call_func_heaps)

lemma Execute_heaps:
  assumes "Execute root w = Some (r, w1)"
  shows "cmds w1 = cmds w \<and> metas w1 = metas w \<and> stderr w1 = stderr w"
  using assms
  by (auto simp: Execute_def split: sum.splits dest!: execute_heaps)

lemma runPlugin_Execute:
  assumes "plugin < length (cmds w)" "global_flags_err w = None"
  shows "runPlugin plugin meta w =
     (let n = length (cmds w);
          heap = AddCommand n (Suc n)
                      (AddCommand n plugin
                         (cmds w @
                            [\<lparr>Use = ''docker [OPTIONS] '' @ Name (cmds w ! plugin) @ '' [ARG...]'',
                              Short = NamePrefix @ Name (cmds w ! plugin) @ '' is a Docker CLI plugin'',
                              Hidden = False, PersistentPreRunE = None, RunE = None,
                              parent = None, commands = []\<rparr>,
                             \<lparr>Use = MetadataSubcommandName, Short = [], Hidden = True,
                              PersistentPreRunE = None,
                              RunE = Some (MetadataRunE (length (metas w))),
                              parent = None, commands = []\<rparr>]));
          w2 = w\<lparr>metas := metas w @
                      [if ShortDescription meta = []
                       then meta\<lparr>ShortDescription := Short (cmds w ! plugin)\<rparr> else meta],
                 cmds := heap[plugin := (heap ! plugin)\<lparr>PersistentPreRunE := Some (InitializeHook plugin)\<rparr>]\<rparr>
      in Execute n w2)"
  using assms by (simp add: runPlugin_def newPluginCommand_eq Let_def)

lemma runPlugin_flags_error:
  assumes "plugin < length (cmds w)" "global_flags_err w = Some err"
  shows "runPlugin plugin meta w =
     (let n = length (cmds w);
          heap = AddCommand n (Suc n)
                      (AddCommand n plugin
                         (cmds w @
                            [\<lparr>Use = ''docker [OPTIONS] '' @ Name (cmds w ! plugin) @ '' [ARG...]'',
                              Short = NamePrefix @ Name (cmds w ! plugin) @ '' is a Docker CLI plugin'',
                              Hidden = False, PersistentPreRunE = None, RunE = None,
                              parent = None, commands = []\<rparr>,
                             \<lparr>Use = MetadataSubcommandName, Short = [], Hidden = True,
                              PersistentPreRunE = None,
                              RunE = Some (MetadataRunE (length (metas w))),
                              parent = None, commands = []\<rparr>]));
          w2 = w\<lparr>metas := metas w @
                      [if ShortDescription meta = []
                       then meta\<lparr>ShortDescription := Short (cmds w ! plugin)\<rparr> else meta],
                 cmds := heap[plugin := (heap ! plugin)\<lparr>PersistentPreRunE := Some (InitializeHook plugin)\<rparr>]\<rparr>
      in Some (Some err, w2))"
  using assms by (simp add: runPlugin_def newPluginCommand_eq Let_def)

lemma runPlugin_panic:
  "\<not> plugin < length (cmds w) \<Longrightarrow> runPlugin plugin meta w = None"
  by (simp add: runPlugin_def newPluginCommand_panic)

lemma runPlugin_plugin_valid:
  "runPlugin plugin meta w = Some x \<Longrightarrow> plugin < length (cmds w)"
  using runPlugin_panic by fastforce

lemma metadata_run:
  assumes asm: "newPluginCommand plugin meta w = Some (root, w1)"
    and flags: "global_flags_err w = None"
    and sel: "cobra_find w
               ((cmds w1)[plugin := (cmds w1 ! plugin)\<lparr>PersistentPreRunE := Some (InitializeHook plugin)\<rparr>])
               root = Inr (Suc root)"
  shows "\<exists>w2. runPlugin plugin meta w =
             Some (Encode False ''     ''
                    (if ShortDescription meta = []
                     then meta\<lparr>ShortDescription := Short (cmds w ! plugin)\<rparr> else meta) w2)
           \<and> w2\<lparr>metas := metas w, cmds := cmds w\<rparr> = w
           \<and> metas w2 = metas w @
                      [if ShortDescription meta = []
                       then meta\<lparr>ShortDescription := Short (cmds w ! plugin)\<rparr> else meta]"
proof -
  have valid: "plugin < length (cmds w)"
    using asm newPluginCommand_panic by fastforce
  define n where "n = length (cmds w)"
  define dflt where "dflt = (if ShortDescription meta = []
                       then meta\<lparr>ShortDescription := Short (cmds w ! plugin)\<rparr> else meta)"
  define heap where "heap = AddCommand n (Suc n)
                      (AddCommand n plugin
                         (cmds w @
                            [\<lparr>Use = ''docker [OPTIONS] '' @ Name (cmds w ! plugin) @ '' [ARG...]'',
                              Short = NamePrefix @ Name (cmds w ! plugin) @ '' is a Docker CLI plugin'',
                              Hidden = False, PersistentPreRunE = None, RunE = None,
                              parent = None, commands = []\<rparr>,
                             \<lparr>Use = MetadataSubcommandName, Short = [], Hidden = True,
                              PersistentPreRunE = None,
                              RunE = Some (MetadataRunE (length (metas w))),
                              parent = None, commands = []\<rparr>]))"
  define heap2 where
    "heap2 = heap[plugin := (heap ! plugin)\<lparr>PersistentPreRunE := Some (InitializeHook plugin)\<rparr>]"
  define w2 where "w2 = w\<lparr>metas := metas w @ [dflt], cmds := heap2\<rparr>"
  have len: "length heap2 = Suc (Suc n)" by (simp add: heap2_def heap_def n_def)
  have at_mc: "heap2 ! Suc n =
      \<lparr>Use = MetadataSubcommandName, Short = [], Hidden = True, PersistentPreRunE = None,
       RunE = Some (MetadataRunE (length (metas w))), parent = Some n, commands = []\<rparr>"
    using valid by (simp add: heap2_def heap_def n_def nth_AddCommand nth_append)
  have at_root: "PersistentPreRunE (heap2 ! n) = None \<and> parent (heap2 ! n) = None"
    using valid by (simp add: heap2_def heap_def n_def nth_AddCommand nth_append)
  have hook: "find_hook (Suc (length heap2)) heap2 (Some (Suc n)) = Some None"
    by (simp add: len deref_def at_mc at_root)
  have run: "runPlugin plugin meta w = Execute n w2"
    using valid flags
    by (simp add: runPlugin_Execute Let_def w2_def heap2_def heap_def n_def dflt_def)
  have root: "root = n" and w1: "cmds w1 = heap"
    using asm valid by (auto simp: newPluginCommand_eq n_def heap_def)
  have "cobra_find w2 (cmds w2) n = Inr (Suc n)"
    using sel by (simp add: w2_def root w1 heap2_def)
  then have "Execute n w2 = execute (Suc n) w2"
    by (simp add: Execute_def)
  also have "\<dots> = call_func (MetadataRunE (length (metas w))) w2"
    using hook by (simp add: execute_def deref_def w2_def len at_mc)
  also have "\<dots> = Some (Encode False ''     '' dflt w2)"
    by (simp add: call_func_def metadata_RunE_def deref_def w2_def)
  finally have "runPlugin plugin meta w = Some (Encode False ''     '' dflt w2)"
    using run by simp
  moreover have "w2\<lparr>metas := metas w, cmds := cmds w\<rparr> = w"
    by (simp add: w2_def)
  moreover have "metas w2 = metas w @ [dflt]"
    by (simp add: w2_def)
  ultimately show ?thesis
    unfolding dflt_def by blast
qed

subsection \<open>The exit status\<close>

lemmas example_defs = runPlugin_def newPluginCommand_def newMetadataSubcommand_def AddCommand_def
  Execute_def execute_def call_func_def Initialize_def withPluginClientConn_def helper_flags_def
  metadata_RunE_def Encode_def deref_def Name_def find_by_name_def
  example_world_def example_plugin_def example_meta_def NamePrefix_def MetadataSubcommandName_def
  Let_def

text \<open>
  C4. Suppose the \<^verbatim>\<open>DockerCli\<close> is created and \<^verbatim>\<open>runPlugin\<close> returns a
  \<^verbatim>\<open>StatusError\<close> with the code \<open>code\<close>. Then \<^verbatim>\<open>Run\<close> ends in \<^verbatim>\<open>os.Exit\<close>, with \<open>code\<close>
  when it is not zero and with 1 when it is zero; the status is never 0 and \<^verbatim>\<open>Run\<close>
  does not return. For a code that is not negative this is the larger of the code
  and 1. The exit code is the argument given to \<^verbatim>\<open>os.Exit\<close>.
\<close>

theorem status_error_exit_code:
  assumes "new_cli_err w = None"
    and "makeCmd w = (plugin, w1)"
    and "runPlugin plugin meta w1 = Some (Some (StatusError status code), w2)"
  shows "\<exists>oc w3. Run makeCmd meta w = Some (oc, w3)
           \<and> oc = Exit (if code = 0 then 1 else code)
           \<and> oc \<noteq> Exit 0 \<and> oc \<noteq> Returned
           \<and> (0 \<le> code \<longrightarrow> oc = Exit (max 1 code))"
  using assms by (auto simp: Run_def Let_def)

theorem status_error_exit_code_witness:
  "new_cli_err (example_world ''myplugin'' (Some (StatusError [] 0))) = None
   \<and> (\<exists>w2. runPlugin 0 example_meta (example_world ''myplugin'' (Some (StatusError [] 0)))
              = Some (Some (StatusError [] 0), w2))
   \<and> (\<exists>w3. Run (\<lambda>w. (0, w)) example_meta (example_world ''myplugin'' (Some (StatusError [] 0)))
              = Some (Exit 1, w3))"
proof -
  let ?w = "example_world ''myplugin'' (Some (StatusError [] 0))"
  have h1: "new_cli_err ?w = None" by (simp add: example_world_def)
  have h2: "(\<lambda>w. (0, w)) ?w = (0, ?w)" by simp
  have "\<exists>w2. runPlugin 0 example_meta ?w = Some (Some (StatusError [] 0), w2)"
    by (simp add: example_defs)
  then obtain w2 where h3: "runPlugin 0 example_meta ?w = Some (Some (StatusError [] 0), w2)"
    by blast
  from status_error_exit_code [where makeCmd = "\<lambda>w. (0, w)", OF h1 h2 h3]
  have "\<exists>w3. Run (\<lambda>w. (0, w)) example_meta ?w = Some (Exit 1, w3)" by simp
  with h1 h3 show ?thesis by blast
qed

text \<open>
  C5. Under the same conditions the status message followed by a newline is appended
  to the error stream when it is not empty, and nothing is written when it is empty;
  standard output is left as \<^verbatim>\<open>runPlugin\<close> left it. The witness is the example of the
  spec: the message \<^verbatim>\<open>M\<close> with the code 3 puts the line \<^verbatim>\<open>M\<close> on the error stream and
  exits with 3.
\<close>

theorem status_message_on_stderr:
  assumes "new_cli_err w = None"
    and "makeCmd w = (plugin, w1)"
    and "runPlugin plugin meta w1 = Some (Some (StatusError status code), w2)"
  shows "\<exists>w3. Run makeCmd meta w = Some (Exit (if code = 0 then 1 else code), w3)
           \<and> stderr w3 = (if status = [] then stderr w2 else stderr w2 @ status @ [CHR 0x0A])
           \<and> stdout w3 = stdout w2"
  using assms by (auto simp: Run_def Let_def)

theorem status_message_on_stderr_witness:
  "new_cli_err (example_world ''myplugin'' (Some (StatusError ''M'' 3))) = None
   \<and> (\<exists>w2. runPlugin 0 example_meta (example_world ''myplugin'' (Some (StatusError ''M'' 3)))
              = Some (Some (StatusError ''M'' 3), w2) \<and> stderr w2 = [])
   \<and> (\<exists>w3. Run (\<lambda>w. (0, w)) example_meta (example_world ''myplugin'' (Some (StatusError ''M'' 3)))
              = Some (Exit 3, w3) \<and> stderr w3 = ''M'' @ [CHR 0x0A])"
proof -
  let ?w = "example_world ''myplugin'' (Some (StatusError ''M'' 3))"
  have h1: "new_cli_err ?w = None" by (simp add: example_world_def)
  have h2: "(\<lambda>w. (0, w)) ?w = (0, ?w)" by simp
  have "\<exists>w2. runPlugin 0 example_meta ?w = Some (Some (StatusError ''M'' 3), w2) \<and> stderr w2 = []"
    by (simp add: example_defs)
  then obtain w2 where h3: "runPlugin 0 example_meta ?w = Some (Some (StatusError ''M'' 3), w2)"
    and e: "stderr w2 = []"
    by blast
  from status_message_on_stderr [where makeCmd = "\<lambda>w. (0, w)", OF h1 h2 h3] e
  have "\<exists>w3. Run (\<lambda>w. (0, w)) example_meta ?w = Some (Exit 3, w3) \<and> stderr w3 = ''M'' @ [CHR 0x0A]"
    by auto
  with h1 h3 e show ?thesis by blast
qed

subsection \<open>The persistent pre-run function of the plugin\<close>

text \<open>
  C10. Whenever \<^verbatim>\<open>runPlugin\<close> returns, the plugin command is what the author passed
  except for two fields: its parent is the new root, and its \<^verbatim>\<open>PersistentPreRunE\<close> is
  the initializer of lines 22-24, whatever the field held before. The function that
  cobra finds for the plugin command is that initializer, so a function the author
  had put there does not run.
\<close>

theorem runPlugin_overwrites_hook:
  assumes "runPlugin plugin meta w = Some (r, w')"
  shows "cmds w' ! plugin =
           (cmds w ! plugin)\<lparr>parent := Some (length (cmds w)),
                              PersistentPreRunE := Some (InitializeHook plugin)\<rparr>
         \<and> find_hook (Suc (length (cmds w'))) (cmds w') (Some plugin)
             = Some (Some (InitializeHook plugin))"
proof -
  have valid: "plugin < length (cmds w)"
    using assms by (rule runPlugin_plugin_valid)
  define n where "n = length (cmds w)"
  define heap where "heap = AddCommand n (Suc n)
                      (AddCommand n plugin
                         (cmds w @
                            [\<lparr>Use = ''docker [OPTIONS] '' @ Name (cmds w ! plugin) @ '' [ARG...]'',
                              Short = NamePrefix @ Name (cmds w ! plugin) @ '' is a Docker CLI plugin'',
                              Hidden = False, PersistentPreRunE = None, RunE = None,
                              parent = None, commands = []\<rparr>,
                             \<lparr>Use = MetadataSubcommandName, Short = [], Hidden = True,
                              PersistentPreRunE = None,
                              RunE = Some (MetadataRunE (length (metas w))),
                              parent = None, commands = []\<rparr>]))"
  define heap2 where
    "heap2 = heap[plugin := (heap ! plugin)\<lparr>PersistentPreRunE := Some (InitializeHook plugin)\<rparr>]"
  have len: "length heap = n + 2" by (simp add: heap_def n_def)
  have at_plugin: "heap ! plugin = (cmds w ! plugin)\<lparr>parent := Some n\<rparr>"
    using valid by (simp add: heap_def n_def nth_AddCommand nth_append)
  have heap2_plugin: "heap2 ! plugin =
      (cmds w ! plugin)\<lparr>parent := Some n, PersistentPreRunE := Some (InitializeHook plugin)\<rparr>"
    using valid len by (simp add: heap2_def at_plugin n_def)
  have final: "cmds w' = heap2"
  proof (cases "global_flags_err w")
    case None
    with assms valid have "Execute n (w\<lparr>metas := metas w @
                      [if ShortDescription meta = []
                       then meta\<lparr>ShortDescription := Short (cmds w ! plugin)\<rparr> else meta],
                 cmds := heap2\<rparr>) = Some (r, w')"
      by (simp add: runPlugin_Execute Let_def heap_def heap2_def n_def)
    from Execute_heaps [OF this] show ?thesis by simp
  next
    case (Some e)
    with assms valid show ?thesis
      by (auto simp: runPlugin_flags_error Let_def heap_def heap2_def n_def)
  qed
  have "find_hook (Suc (length heap2)) heap2 (Some plugin) = Some (Some (InitializeHook plugin))"
    using valid len by (simp add: deref_def heap2_plugin heap2_def n_def)
  with final heap2_plugin show ?thesis by (simp add: n_def)
qed

theorem runPlugin_overwrites_hook_witness:
  "PersistentPreRunE (cmds (example_world ''myplugin'' None) ! 0) = Some (AuthorFunc 1 None)
   \<and> (\<exists>r w'. runPlugin 0 example_meta (example_world ''myplugin'' None) = Some (r, w')
        \<and> PersistentPreRunE (cmds w' ! 0) = Some (InitializeHook 0)
        \<and> AuthorCalled 1 \<notin> set (events w'))"
proof -
  let ?w = "example_world ''myplugin'' None"
  have "\<exists>r w'. runPlugin 0 example_meta ?w = Some (r, w') \<and> AuthorCalled 1 \<notin> set (events w')"
    by (simp add: example_defs)
  then obtain r w' where run: "runPlugin 0 example_meta ?w = Some (r, w')"
    and ev: "AuthorCalled 1 \<notin> set (events w')"
    by blast
  from runPlugin_overwrites_hook [OF run]
  have "PersistentPreRunE (cmds w' ! 0) = Some (InitializeHook 0)" by simp
  moreover have "PersistentPreRunE (cmds ?w ! 0) = Some (AuthorFunc 1 None)"
    by (simp add: example_world_def example_plugin_def)
  ultimately show ?thesis using run ev by blast
qed

lemma Initialize_events:
  assumes "os_args w \<noteq> []"
  shows "\<exists>r w' fl evs. Initialize name w = Some (r, w')
           \<and> helper_flags name (os_args w) = Some fl
           \<and> events w' = events w @
                HelperRequested (if reexec_env w \<noteq> [] then reexec_env w else ''docker'') fl # evs
           \<and> cmds w' = cmds w"
proof -
  from assms obtain fl where fl: "helper_flags name (os_args w) = Some fl"
    by (cases "os_args w") (auto simp: helper_flags_def)
  then show ?thesis
    by (cases "helper_err w"; cases "client_err w")
       (auto simp: Initialize_def withPluginClientConn_def Let_def)
qed

lemma plugin_run:
  assumes asm: "newPluginCommand plugin meta w = Some (root, w1)"
    and flags: "global_flags_err w = None"
    and sel: "cobra_find w
               ((cmds w1)[plugin := (cmds w1 ! plugin)\<lparr>PersistentPreRunE := Some (InitializeHook plugin)\<rparr>])
               root = Inr plugin"
    and run: "RunE (cmds w ! plugin) = Some (AuthorFunc i e)"
    and args: "os_args w \<noteq> []"
  shows "\<exists>r w' cmd fl evs. runPlugin plugin meta w = Some (r, w')
           \<and> helper_flags (Name (cmds w ! plugin)) (os_args w) = Some fl
           \<and> events w' = events w @ HelperRequested cmd fl # evs"
proof -
  have valid: "plugin < length (cmds w)"
    using asm newPluginCommand_panic by fastforce
  define n where "n = length (cmds w)"
  define dflt where "dflt = (if ShortDescription meta = []
                       then meta\<lparr>ShortDescription := Short (cmds w ! plugin)\<rparr> else meta)"
  define heap where "heap = AddCommand n (Suc n)
                      (AddCommand n plugin
                         (cmds w @
                            [\<lparr>Use = ''docker [OPTIONS] '' @ Name (cmds w ! plugin) @ '' [ARG...]'',
                              Short = NamePrefix @ Name (cmds w ! plugin) @ '' is a Docker CLI plugin'',
                              Hidden = False, PersistentPreRunE = None, RunE = None,
                              parent = None, commands = []\<rparr>,
                             \<lparr>Use = MetadataSubcommandName, Short = [], Hidden = True,
                              PersistentPreRunE = None,
                              RunE = Some (MetadataRunE (length (metas w))),
                              parent = None, commands = []\<rparr>]))"
  define heap2 where
    "heap2 = heap[plugin := (heap ! plugin)\<lparr>PersistentPreRunE := Some (InitializeHook plugin)\<rparr>]"
  define w2 where "w2 = w\<lparr>metas := metas w @ [dflt], cmds := heap2\<rparr>"
  have len: "length heap2 = Suc (Suc n)" by (simp add: heap2_def heap_def n_def)
  have at_plugin: "heap2 ! plugin =
      (cmds w ! plugin)\<lparr>parent := Some n, PersistentPreRunE := Some (InitializeHook plugin)\<rparr>"
    using valid by (simp add: heap2_def heap_def n_def nth_AddCommand nth_append)
  have hook: "find_hook (Suc (length heap2)) heap2 (Some plugin) = Some (Some (InitializeHook plugin))"
    using valid by (simp add: len deref_def at_plugin n_def)
  have name: "Name (heap2 ! plugin) = Name (cmds w ! plugin)"
    by (simp add: at_plugin Name_def)
  have runp: "runPlugin plugin meta w = Execute n w2"
    using valid flags
    by (simp add: runPlugin_Execute Let_def w2_def heap2_def heap_def n_def dflt_def)
  have root: "root = n" and w1: "cmds w1 = heap"
    using asm valid by (auto simp: newPluginCommand_eq n_def heap_def)
  have "cobra_find w2 (cmds w2) n = Inr plugin"
    using sel by (simp add: w2_def root w1 heap2_def)
  then have ex: "Execute n w2 = execute plugin w2"
    by (simp add: Execute_def)
  have args2: "os_args w2 \<noteq> []" using args by (simp add: w2_def)
  from Initialize_events [OF args2, of "Name (cmds w ! plugin)"]
  obtain r1 w3 fl evs where
    init: "Initialize (Name (cmds w ! plugin)) w2 = Some (r1, w3)"
    and fl: "helper_flags (Name (cmds w ! plugin)) (os_args w2) = Some fl"
    and ev: "events w3 = events w2 @
               HelperRequested (if reexec_env w2 \<noteq> [] then reexec_env w2 else ''docker'') fl # evs"
    by blast
  have unfold: "execute plugin w2 =
      (case r1 of Some err \<Rightarrow> Some (Some err, w3)
       | None \<Rightarrow> Some (e, w3\<lparr>events := events w3 @ [AuthorCalled i]\<rparr>))"
    using hook valid run init [unfolded Name_def]
    by (cases r1)
       (simp_all add: execute_def deref_def w2_def len at_plugin n_def call_func_def Name_def)
  show ?thesis
  proof (cases r1)
    case None
    with unfold runp ex
    have "runPlugin plugin meta w = Some (e, w3\<lparr>events := events w3 @ [AuthorCalled i]\<rparr>)"
      by simp
    moreover have "events (w3\<lparr>events := events w3 @ [AuthorCalled i]\<rparr>) =
        events w @ HelperRequested (if reexec_env w2 \<noteq> [] then reexec_env w2 else ''docker'') fl
          # (evs @ [AuthorCalled i])"
      using ev by (simp add: w2_def)
    moreover have "helper_flags (Name (cmds w ! plugin)) (os_args w) = Some fl"
      using fl by (simp add: w2_def)
    ultimately show ?thesis by blast
  next
    case (Some err)
    with unfold runp ex
    have "runPlugin plugin meta w = Some (Some err, w3)"
      by simp
    moreover have "events w3 =
        events w @ HelperRequested (if reexec_env w2 \<noteq> [] then reexec_env w2 else ''docker'') fl
          # evs"
      using ev by (simp add: w2_def)
    moreover have "helper_flags (Name (cmds w ! plugin)) (os_args w) = Some fl"
      using fl by (simp add: w2_def)
    ultimately show ?thesis by blast
  qed
qed

lemma metadata_command_shape:
  assumes asm: "newPluginCommand plugin meta w = Some (root, w1)"
  shows "Use (cmds w1 ! Suc root) = MetadataSubcommandName \<and> Hidden (cmds w1 ! Suc root)
         \<and> commands (cmds w1 ! root) = [plugin, Suc root]"
proof -
  have valid: "plugin < length (cmds w)"
    using asm newPluginCommand_panic by fastforce
  with asm show ?thesis
    by (auto simp: newPluginCommand_eq nth_AddCommand nth_append)
qed

subsection \<open>The metadata record\<close>

text \<open>
  C9. \<^verbatim>\<open>Metadata\<close> is passed by value. Whenever \<^verbatim>\<open>runPlugin\<close> returns, the assembly of the
  command tree has added one \<^verbatim>\<open>Metadata\<close> variable, the parameter of
  \<^verbatim>\<open>newMetadataSubcommand\<close>, which holds the author's record with the short description
  of the plugin command in place of an empty one. The run of the selected command
  changes no \<^verbatim>\<open>Metadata\<close> variable, and every variable that existed before the call,
  the author's among them, holds what it held: the default is stored in the copy
  only.
\<close>

theorem metadata_never_mutated:
  assumes "runPlugin plugin meta w = Some (r, w')"
  shows "\<exists>root w1. newPluginCommand plugin meta w = Some (root, w1)
           \<and> metas w1 = metas w @
                [if ShortDescription meta = []
                 then meta\<lparr>ShortDescription := Short (cmds w ! plugin)\<rparr> else meta]
           \<and> metas w' = metas w1
           \<and> take (length (metas w)) (metas w') = metas w"
proof -
  have valid: "plugin < length (cmds w)"
    using assms by (rule runPlugin_plugin_valid)
  let ?dflt = "if ShortDescription meta = []
               then meta\<lparr>ShortDescription := Short (cmds w ! plugin)\<rparr> else meta"
  obtain w1 where asm: "newPluginCommand plugin meta w = Some (length (cmds w), w1)"
    and m1: "metas w1 = metas w @ [?dflt]"
    using valid by (simp add: newPluginCommand_eq)
  have "metas w' = metas w @ [?dflt]"
  proof (cases "global_flags_err w")
    case None
    from assms obtain w2 where ex: "Execute (length (cmds w)) w2 = Some (r, w')"
      and m2: "metas w2 = metas w @ [?dflt]"
      using valid None by (simp add: runPlugin_Execute Let_def)
    from Execute_heaps [OF ex] m2 show ?thesis by simp
  next
    case (Some e)
    with assms valid show ?thesis
      by (auto simp: runPlugin_flags_error Let_def)
  qed
  with asm m1 show ?thesis by simp
qed

theorem metadata_never_mutated_witness:
  "\<exists>r w'. runPlugin 0 example_meta
              ((example_world MetadataSubcommandName None)\<lparr>metas := [example_meta]\<rparr>) = Some (r, w')
         \<and> metas w' = [example_meta, example_meta\<lparr>ShortDescription := ''An example plugin''\<rparr>]"
proof -
  let ?w = "(example_world MetadataSubcommandName None)\<lparr>metas := [example_meta]\<rparr>"
  have "\<exists>r w'. runPlugin 0 example_meta ?w = Some (r, w')"
    by (simp add: example_defs)
  then obtain r w' where run: "runPlugin 0 example_meta ?w = Some (r, w')"
    by blast
  from metadata_never_mutated [OF run]
  have "metas w' = [example_meta, example_meta\<lparr>ShortDescription := ''An example plugin''\<rparr>]"
    by (auto simp: example_world_def example_plugin_def example_meta_def)
  with run show ?thesis by blast
qed

subsection \<open>When the client is initialised\<close>

text \<open>
  C2. Modelled from the spec: which functions cobra runs for the command it selects
  (\<open>find_hook\<close> and \<open>execute\<close> above) is code of the cobra library and not of this file.
  Let \<^verbatim>\<open>newPluginCommand\<close> return the root, let \<^verbatim>\<open>HandleGlobalFlags\<close> succeed, and let \<open>c\<close>
  be the command that cobra selects in the tree with the initializer installed. The
  command allocated after the root is the hidden metadata command, and the root's
  children are the plugin and that command. If \<open>c\<close> is the metadata command, then
  \<^verbatim>\<open>runPlugin\<close> returns with no call to code outside the file (no helper is requested,
  no client is created, the author's functions do not run) and with the client
  untouched, and it returns no error when standard output can be written. This holds
  whatever the helper, the client and \<^verbatim>\<open>os.Args\<close> are. If \<open>c\<close> is the plugin command with a
  run function of the author, the first call is the request for the helper with the
  arguments of lines 66-81.
\<close>

theorem bridge_only_for_plugin_command:
  assumes asm: "newPluginCommand plugin meta w = Some (root, w1)"
    and flags: "global_flags_err w = None"
    and sel: "cobra_find w
               ((cmds w1)[plugin := (cmds w1 ! plugin)\<lparr>PersistentPreRunE := Some (InitializeHook plugin)\<rparr>])
               root = Inr c"
  shows "Use (cmds w1 ! Suc root) = MetadataSubcommandName \<and> Hidden (cmds w1 ! Suc root)
       \<and> commands (cmds w1 ! root) = [plugin, Suc root]
       \<and> (c = Suc root \<longrightarrow>
            (\<exists>r w'. runPlugin plugin meta w = Some (r, w') \<and> events w' = events w
                \<and> client w' = client w \<and> (stdout_err w = None \<longrightarrow> r = None)))
       \<and> (c = plugin \<and> (\<exists>i e. RunE (cmds w ! plugin) = Some (AuthorFunc i e)) \<and> os_args w \<noteq> [] \<longrightarrow>
            (\<exists>r w' cmd fl evs. runPlugin plugin meta w = Some (r, w')
                \<and> helper_flags (Name (cmds w ! plugin)) (os_args w) = Some fl
                \<and> events w' = events w @ HelperRequested cmd fl # evs))"
proof (intro conjI impI)
  assume c: "c = Suc root"
  let ?dflt = "if ShortDescription meta = []
               then meta\<lparr>ShortDescription := Short (cmds w ! plugin)\<rparr> else meta"
  from metadata_run [OF asm flags sel [unfolded c]]
  obtain w2 where run: "runPlugin plugin meta w = Some (Encode False ''     '' ?dflt w2)"
    and same: "w2\<lparr>metas := metas w, cmds := cmds w\<rparr> = w"
    by blast
  have "events (w2\<lparr>metas := metas w, cmds := cmds w\<rparr>) = events w"
    "client (w2\<lparr>metas := metas w, cmds := cmds w\<rparr>) = client w"
    "stdout_err (w2\<lparr>metas := metas w, cmds := cmds w\<rparr>) = stdout_err w"
    using same by simp_all
  then have f: "events w2 = events w" "client w2 = client w" "stdout_err w2 = stdout_err w"
    by simp_all
  show "\<exists>r w'. runPlugin plugin meta w = Some (r, w') \<and> events w' = events w
          \<and> client w' = client w \<and> (stdout_err w = None \<longrightarrow> r = None)"
    using run f by (cases "stdout_err w") (auto simp: Encode_def)
next
  assume "c = plugin \<and> (\<exists>i e. RunE (cmds w ! plugin) = Some (AuthorFunc i e)) \<and> os_args w \<noteq> []"
  then obtain i e where c: "c = plugin" and run: "RunE (cmds w ! plugin) = Some (AuthorFunc i e)"
    and args: "os_args w \<noteq> []"
    by blast
  from plugin_run [OF asm flags sel [unfolded c] run args]
  show "\<exists>r w' cmd fl evs. runPlugin plugin meta w = Some (r, w')
          \<and> helper_flags (Name (cmds w ! plugin)) (os_args w) = Some fl
          \<and> events w' = events w @ HelperRequested cmd fl # evs" .
qed (use metadata_command_shape [OF asm] in simp_all)

theorem bridge_only_for_plugin_command_witness:
  "(\<exists>w'. runPlugin 0 example_meta
            ((example_world MetadataSubcommandName None)
               \<lparr>os_args := [], helper_err := Some (OtherError ''docker: not found'')\<rparr>)
          = Some (None, w') \<and> events w' = [] \<and> client w' = None)
   \<and> (\<exists>r w' evs. runPlugin 0 example_meta (example_world ''myplugin'' None) = Some (r, w')
          \<and> events w' =
               HelperRequested ''docker'' [''--config'', ''/tmp/c'', ''system'', ''dial-stdio''] # evs)"
proof -
  let ?wm = "(example_world MetadataSubcommandName None)
               \<lparr>os_args := [], helper_err := Some (OtherError ''docker: not found'')\<rparr>"
  let ?wp = "example_world ''myplugin'' None"
  have "\<exists>root w1. newPluginCommand 0 example_meta ?wm = Some (root, w1)
          \<and> cobra_find ?wm
               ((cmds w1)[0 := (cmds w1 ! 0)\<lparr>PersistentPreRunE := Some (InitializeHook 0)\<rparr>])
               root = Inr (Suc root)"
    by (simp add: example_defs)
  then obtain root w1 where asm: "newPluginCommand 0 example_meta ?wm = Some (root, w1)"
    and sel: "cobra_find ?wm
               ((cmds w1)[0 := (cmds w1 ! 0)\<lparr>PersistentPreRunE := Some (InitializeHook 0)\<rparr>])
               root = Inr (Suc root)"
    by blast
  have flags: "global_flags_err ?wm = None" and out: "stdout_err ?wm = None"
    and ev: "events ?wm = []" and cl: "client ?wm = None"
    by (simp_all add: example_world_def)
  from bridge_only_for_plugin_command [OF asm flags sel] out ev cl
  have first: "\<exists>w'. runPlugin 0 example_meta ?wm = Some (None, w') \<and> events w' = []
                  \<and> client w' = None"
    by auto
  have "\<exists>root w1. newPluginCommand 0 example_meta ?wp = Some (root, w1)
          \<and> cobra_find ?wp
               ((cmds w1)[0 := (cmds w1 ! 0)\<lparr>PersistentPreRunE := Some (InitializeHook 0)\<rparr>])
               root = Inr 0"
    by (simp add: example_defs)
  then obtain root' w1' where asm': "newPluginCommand 0 example_meta ?wp = Some (root', w1')"
    and sel': "cobra_find ?wp
               ((cmds w1')[0 := (cmds w1' ! 0)\<lparr>PersistentPreRunE := Some (InitializeHook 0)\<rparr>])
               root' = Inr 0"
    by blast
  have flags': "global_flags_err ?wp = None" and args: "os_args ?wp \<noteq> []"
    and run: "\<exists>i e. RunE (cmds ?wp ! 0) = Some (AuthorFunc i e)"
    and ev': "events ?wp = []"
    and fl: "helper_flags (Name (cmds ?wp ! 0)) (os_args ?wp)
               = Some [''--config'', ''/tmp/c'', ''system'', ''dial-stdio'']"
    by (simp_all add: example_world_def example_plugin_def helper_flags_def Name_def)
  from bridge_only_for_plugin_command [OF asm' flags' sel'] args run
  obtain r w' cmd fl' evs where res: "runPlugin 0 example_meta ?wp = Some (r, w')"
    and fl': "helper_flags (Name (cmds ?wp ! 0)) (os_args ?wp) = Some fl'"
    and evs: "events w' = events ?wp @ HelperRequested cmd fl' # evs"
    by blast
  have "\<exists>r w' evs. runPlugin 0 example_meta ?wp = Some (r, w')
          \<and> events w' =
               HelperRequested ''docker'' [''--config'', ''/tmp/c'', ''system'', ''dial-stdio''] # evs"
    by (simp add: example_defs)
  with first show ?thesis by blast
qed

subsection \<open>The output of the metadata command\<close>

text \<open>
  C8. Two runs in which cobra selects the metadata command, with the same
  \<^verbatim>\<open>Metadata\<close> and the same short description of the plugin command, append the same
  bytes to standard output. The two processes may differ in everything else:
  arguments, environment, helper, what was written before.
\<close>

theorem metadata_output_deterministic:
  assumes asm: "newPluginCommand p meta w = Some (root, w1)"
    and flags: "global_flags_err w = None"
    and sel: "cobra_find w
               ((cmds w1)[p := (cmds w1 ! p)\<lparr>PersistentPreRunE := Some (InitializeHook p)\<rparr>])
               root = Inr (Suc root)"
    and out: "stdout_err w = None"
    and asm': "newPluginCommand p' meta w' = Some (root', w1')"
    and flags': "global_flags_err w' = None"
    and sel': "cobra_find w'
               ((cmds w1')[p' := (cmds w1' ! p')\<lparr>PersistentPreRunE := Some (InitializeHook p')\<rparr>])
               root' = Inr (Suc root')"
    and out': "stdout_err w' = None"
    and short: "Short (cmds w ! p) = Short (cmds w' ! p')"
  shows "\<exists>doc v v'. runPlugin p meta w = Some (None, v) \<and> runPlugin p' meta w' = Some (None, v')
           \<and> stdout v = stdout w @ doc \<and> stdout v' = stdout w' @ doc"
proof -
  let ?dflt = "if ShortDescription meta = []
               then meta\<lparr>ShortDescription := Short (cmds w ! p)\<rparr> else meta"
  let ?doc = "encode_object ''     '' (metadata_members False ?dflt)"
  from metadata_run [OF asm flags sel]
  obtain w2 where run: "runPlugin p meta w = Some (Encode False ''     '' ?dflt w2)"
    and same: "w2\<lparr>metas := metas w, cmds := cmds w\<rparr> = w"
    by blast
  have "stdout (w2\<lparr>metas := metas w, cmds := cmds w\<rparr>) = stdout w"
    "stdout_err (w2\<lparr>metas := metas w, cmds := cmds w\<rparr>) = stdout_err w"
    using same by simp_all
  then have f: "stdout w2 = stdout w" "stdout_err w2 = None"
    using out by simp_all
  from metadata_run [OF asm' flags' sel', folded short]
  obtain w2' where run': "runPlugin p' meta w' = Some (Encode False ''     '' ?dflt w2')"
    and same': "w2'\<lparr>metas := metas w', cmds := cmds w'\<rparr> = w'"
    by blast
  have "stdout (w2'\<lparr>metas := metas w', cmds := cmds w'\<rparr>) = stdout w'"
    "stdout_err (w2'\<lparr>metas := metas w', cmds := cmds w'\<rparr>) = stdout_err w'"
    using same' by simp_all
  then have f': "stdout w2' = stdout w'" "stdout_err w2' = None"
    using out' by simp_all
  have "runPlugin p meta w = Some (None, w2\<lparr>stdout := stdout w @ ?doc\<rparr>)"
    using run f by (simp add: Encode_def)
  moreover have "runPlugin p' meta w' = Some (None, w2'\<lparr>stdout := stdout w' @ ?doc\<rparr>)"
    using run' f' by (simp add: Encode_def)
  ultimately show ?thesis by fastforce
qed

theorem metadata_output_deterministic_witness:
  "\<exists>doc v v'.
      runPlugin 0 example_meta (example_world MetadataSubcommandName None) = Some (None, v)
    \<and> runPlugin 0 example_meta
          ((example_world MetadataSubcommandName None)
             \<lparr>os_args := [''docker-myplugin'', ''docker-cli-plugin-metadata''],
               reexec_env := ''/opt/bin/docker'',
               helper_err := Some (OtherError ''docker: not found''),
               stdout := ''earlier output''\<rparr>) = Some (None, v')
    \<and> stdout v = doc \<and> stdout v' = ''earlier output'' @ doc"
proof -
  let ?wa = "example_world MetadataSubcommandName None"
  let ?wb = "(example_world MetadataSubcommandName None)
             \<lparr>os_args := [''docker-myplugin'', ''docker-cli-plugin-metadata''],
               reexec_env := ''/opt/bin/docker'',
               helper_err := Some (OtherError ''docker: not found''),
               stdout := ''earlier output''\<rparr>"
  have "\<exists>root w1. newPluginCommand 0 example_meta ?wa = Some (root, w1)
          \<and> cobra_find ?wa
               ((cmds w1)[0 := (cmds w1 ! 0)\<lparr>PersistentPreRunE := Some (InitializeHook 0)\<rparr>])
               root = Inr (Suc root)"
    by (simp add: example_defs)
  then obtain root w1 where asm: "newPluginCommand 0 example_meta ?wa = Some (root, w1)"
    and sel: "cobra_find ?wa
               ((cmds w1)[0 := (cmds w1 ! 0)\<lparr>PersistentPreRunE := Some (InitializeHook 0)\<rparr>])
               root = Inr (Suc root)"
    by blast
  have "\<exists>root w1. newPluginCommand 0 example_meta ?wb = Some (root, w1)
          \<and> cobra_find ?wb
               ((cmds w1)[0 := (cmds w1 ! 0)\<lparr>PersistentPreRunE := Some (InitializeHook 0)\<rparr>])
               root = Inr (Suc root)"
    by (simp add: example_defs)
  then obtain root' w1' where asm': "newPluginCommand 0 example_meta ?wb = Some (root', w1')"
    and sel': "cobra_find ?wb
               ((cmds w1')[0 := (cmds w1' ! 0)\<lparr>PersistentPreRunE := Some (InitializeHook 0)\<rparr>])
               root' = Inr (Suc root')"
    by blast
  have flags: "global_flags_err ?wa = None" and out: "stdout_err ?wa = None"
    and flags': "global_flags_err ?wb = None" and out': "stdout_err ?wb = None"
    and short: "Short (cmds ?wa ! 0) = Short (cmds ?wb ! 0)"
    and so: "stdout ?wa = []" "stdout ?wb = ''earlier output''"
    by (simp_all add: example_world_def)
  from metadata_output_deterministic [OF asm flags sel out asm' flags' sel' out' short]
  show ?thesis unfolding so by simp
qed

end
